theory Spec2Isabelle
  imports Main "HOL-Library.Word" "HOL-Library.Signed_Division"
begin

unbundle bit_operations_syntax

section \<open>Architecture descriptor\<close>

text \<open>
  Every operation of \<open>vec.hpp\<close> is a template over an architecture descriptor \<open>A\<close> and
  reads it only through \<open>A::width\<close> and \<open>A::width_mask\<close>. The descriptor is modelled by
  its width \<open>w\<close>, the first argument of every operation that depends on it. This is
  \<open>target::generic<N>\<close>, whose static assertions demand \<open>N <= 32\<close> and \<open>N\<close> a power of
  two; the AVX descriptors fix \<open>width\<close> to 4, 8 and 16 with the same mask.

  \<open>static const std::uint32_t width_mask = (1 << width) - 1\<close>. For a width below 32 the
  value is the one computed here on \<open>uint32_t\<close>. At width 32, the largest the static
  assertions admit, C++ leaves the shift of an \<open>int\<close> undefined; the formula on
  \<open>uint32_t\<close> gives the word with all 32 bits set.
\<close>

type_synonym u32 = "32 word"

definition width_mask :: "nat \<Rightarrow> u32" where
  "width_mask w = push_bit w 1 - 1"

section \<open>The primary template \<open>vec<T,A>\<close>\<close>

text \<open>
  The primary template has the single member \<open>T data[arch::width]\<close>; a vector is the
  list of its lanes, of length \<open>width\<close>. The default constructor value-initialises the
  array (\<open>data()\<close>), which zeroes arithmetic and pointer elements. \<open>get\<close> and \<open>put\<close> index
  the array without a check: an index outside \<open>[0, width)\<close> is undefined behaviour in
  C++, and the theorems below assume the index in range.
\<close>

type_synonym 'a vec = "'a list"

definition vec_default :: "nat \<Rightarrow> 'a::zero vec" where
  "vec_default w = replicate w 0"

text \<open>\<open>vec(const T & u)\<close>: \<open>data()\<close>, then every lane is assigned \<open>u\<close>.\<close>

definition vec_broadcast :: "nat \<Rightarrow> 'a::zero \<Rightarrow> 'a vec" where
  "vec_broadcast w u = map (\<lambda>r. u) (vec_default w :: 'a vec)"

text \<open>\<open>vec(std::initializer_list<T> il)\<close>: \<open>data()\<close>, then \<open>std::copy\<close> of the list onto
  the front of the array (a list longer than the array overruns it in C++).\<close>

definition vec_of_list :: "nat \<Rightarrow> 'a::zero list \<Rightarrow> 'a vec" where
  "vec_of_list w il = il @ drop (length il) (vec_default w)"

definition vec_get :: "'a vec \<Rightarrow> nat \<Rightarrow> 'a" where
  "vec_get xs n = xs ! n"

definition vec_put :: "'a vec \<Rightarrow> nat \<Rightarrow> 'a \<Rightarrow> 'a vec" where
  "vec_put xs n rhs = xs[n := rhs]"

section \<open>The mask vector \<open>vec<bool,A>\<close>\<close>

text \<open>
  The default partial specialisation for \<open>bool\<close> has the single member
  \<open>std::uint32_t data\<close>, lane \<open>n\<close> at bit \<open>n\<close>. The operations that mutate the vector in
  place (\<open>put\<close>, the compound assignments) return the updated vector here.
\<close>

datatype vec_bool = Vec_bool (data: u32)

text \<open>\<open>1ul << n\<close>: an \<open>unsigned long\<close> of 64 bits. \<open>data\<close> is widened to it for \<open>&\<close> and
  \<open>|\<close> and the result narrowed back to \<open>uint32_t\<close> on assignment.\<close>

definition bit1ul :: "nat \<Rightarrow> 64 word" where
  "bit1ul n = push_bit n 1"

text \<open>\<open>vec()\<close>, \<open>vec(bool b)\<close>, \<open>vec(std::false_type)\<close>, \<open>vec(std::true_type)\<close>.\<close>

definition vec_bool_default :: "vec_bool" where
  "vec_bool_default = Vec_bool 0"

definition vec_bool_of_bool :: "nat \<Rightarrow> bool \<Rightarrow> vec_bool" where
  "vec_bool_of_bool w b = Vec_bool (if b then width_mask w else 0)"

definition vec_bool_false_type :: "vec_bool" where
  "vec_bool_false_type = Vec_bool 0"

definition vec_bool_true_type :: "nat \<Rightarrow> vec_bool" where
  "vec_bool_true_type w = Vec_bool (width_mask w)"

text \<open>\<open>template <typename U> vec(vec<U,arch> & that)\<close>: \<open>data(0)\<close>, then for each lane
  \<open>n\<close> below \<open>width\<close>, \<open>if (that.get(n)) data |= 1ul << n\<close>. The argument \<open>that\<close> is the
  truth value of \<open>that.get(n)\<close> as a function of the lane.\<close>

definition vec_bool_of_vec :: "nat \<Rightarrow> (nat \<Rightarrow> bool) \<Rightarrow> vec_bool" where
  "vec_bool_of_vec w that =
     Vec_bool (fold (\<lambda>n d. if that n then ucast (ucast d OR bit1ul n) else d) [0..<w] 0)"

text \<open>\<open>vec(std::initializer_list<bool> bs)\<close>: \<open>data(0)\<close>, \<open>int i = 1\<close>, then for each
  \<open>b\<close> of the list \<open>if (b) data |= i; i <<= 1\<close>. The loop runs over the whole list,
  whatever the width. The \<open>int\<close> is carried as its 32-bit pattern.\<close>

fun init_list_loop :: "bool list \<Rightarrow> u32 \<Rightarrow> u32 \<Rightarrow> u32" where
  "init_list_loop [] j d = d"
| "init_list_loop (b # bs) j d = init_list_loop bs (push_bit 1 j) (if b then d OR j else d)"

definition vec_bool_of_list :: "bool list \<Rightarrow> vec_bool" where
  "vec_bool_of_list bs = Vec_bool (init_list_loop bs 1 0)"

text \<open>\<open>operator ~\<close> and \<open>operator !\<close> (the same body); \<open>&\<close> and \<open>&&\<close>; \<open>|\<close> and \<open>||\<close>;
  \<open>^\<close>. The compound forms \<open>&=\<close>, \<open>|=\<close>, \<open>^=\<close> store the same words into \<open>data\<close>.\<close>

definition vec_bool_not :: "nat \<Rightarrow> vec_bool \<Rightarrow> vec_bool" where
  "vec_bool_not w m = Vec_bool (data m XOR width_mask w)"

definition vec_bool_and :: "vec_bool \<Rightarrow> vec_bool \<Rightarrow> vec_bool" where
  "vec_bool_and m rhs = Vec_bool (data m AND data rhs)"

definition vec_bool_or :: "vec_bool \<Rightarrow> vec_bool \<Rightarrow> vec_bool" where
  "vec_bool_or m rhs = Vec_bool (data m OR data rhs)"

definition vec_bool_xor :: "vec_bool \<Rightarrow> vec_bool \<Rightarrow> vec_bool" where
  "vec_bool_xor m rhs = Vec_bool (data m XOR data rhs)"

text \<open>\<open>get(int i)\<close> is \<open>data & (1ul << i)\<close> converted to \<open>bool\<close>; \<open>put(int i, bool b)\<close> is
  \<open>data = b ? data | (1ul << i) : data & ~(1ul << i)\<close>.\<close>

definition vec_bool_get :: "vec_bool \<Rightarrow> nat \<Rightarrow> bool" where
  "vec_bool_get m n = (ucast (data m) AND bit1ul n \<noteq> 0)"

definition vec_bool_put :: "vec_bool \<Rightarrow> nat \<Rightarrow> bool \<Rightarrow> vec_bool" where
  "vec_bool_put m n b =
     Vec_bool (ucast (if b then ucast (data m) OR bit1ul n
                      else ucast (data m) AND NOT (bit1ul n)))"

text \<open>The member \<open>movemask()\<close> and the free function \<open>movemask(m)\<close> that calls it; \<open>any\<close>
  and \<open>all\<close> return the comparison as a \<open>std::uint32_t\<close>.\<close>

definition movemask :: "vec_bool \<Rightarrow> u32" where
  "movemask m = data m"

definition any :: "vec_bool \<Rightarrow> u32" where
  "any m = of_bool (movemask m \<noteq> 0)"

definition all :: "nat \<Rightarrow> vec_bool \<Rightarrow> u32" where
  "all w m = of_bool (movemask m = width_mask w)"

text \<open>
  The ways a program can build a mask vector through the public operations of
  \<open>vec<bool,A>\<close>, as a term over the constructors, \<open>put\<close> and the boolean operators (the
  compound assignments build the same values as their operators; copy, move and \<open>swap\<close>
  build none that is new). The constructor tagged \<open>detail::internal_t\<close> is not public.
  \<open>mask_build_value\<close> runs the term; \<open>mask_build_in_range\<close> holds when every initializer
  list in it has at most \<open>width\<close> elements and every \<open>put\<close> is at a lane in \<open>[0, width)\<close>.
\<close>

datatype mask_build =
    Build_default
  | Build_of_bool bool
  | Build_false_type
  | Build_true_type
  | Build_of_list "bool list"
  | Build_of_vec "nat \<Rightarrow> bool"
  | Build_put mask_build nat bool
  | Build_not mask_build
  | Build_and mask_build mask_build
  | Build_or mask_build mask_build
  | Build_xor mask_build mask_build

fun mask_build_value :: "nat \<Rightarrow> mask_build \<Rightarrow> vec_bool" where
  "mask_build_value w Build_default = vec_bool_default"
| "mask_build_value w (Build_of_bool b) = vec_bool_of_bool w b"
| "mask_build_value w Build_false_type = vec_bool_false_type"
| "mask_build_value w Build_true_type = vec_bool_true_type w"
| "mask_build_value w (Build_of_list bs) = vec_bool_of_list bs"
| "mask_build_value w (Build_of_vec that) = vec_bool_of_vec w that"
| "mask_build_value w (Build_put e n b) = vec_bool_put (mask_build_value w e) n b"
| "mask_build_value w (Build_not e) = vec_bool_not w (mask_build_value w e)"
| "mask_build_value w (Build_and e1 e2) =
     vec_bool_and (mask_build_value w e1) (mask_build_value w e2)"
| "mask_build_value w (Build_or e1 e2) =
     vec_bool_or (mask_build_value w e1) (mask_build_value w e2)"
| "mask_build_value w (Build_xor e1 e2) =
     vec_bool_xor (mask_build_value w e1) (mask_build_value w e2)"

fun mask_build_in_range :: "nat \<Rightarrow> mask_build \<Rightarrow> bool" where
  "mask_build_in_range w (Build_of_list bs) = (length bs \<le> w)"
| "mask_build_in_range w (Build_put e n b) = (mask_build_in_range w e \<and> n < w)"
| "mask_build_in_range w (Build_not e) = mask_build_in_range w e"
| "mask_build_in_range w (Build_and e1 e2) =
     (mask_build_in_range w e1 \<and> mask_build_in_range w e2)"
| "mask_build_in_range w (Build_or e1 e2) =
     (mask_build_in_range w e1 \<and> mask_build_in_range w e2)"
| "mask_build_in_range w (Build_xor e1 e2) =
     (mask_build_in_range w e1 \<and> mask_build_in_range w e2)"
| "mask_build_in_range w e = True"

section \<open>Active-lane iteration\<close>

text \<open>
  Modelled from the spec: \<open>bscf\<close> is declared in \<open>x86.hpp\<close>, which is not among the
  sources. The specification describes it as bit-scan-forward-and-clear: it extracts the
  index of the lowest set bit of its argument and clears that bit (the source marks the
  call \<open>// mutates m\<close>). The pair is (index, updated word). \<open>bsf\<close> counts the clear
  bits below the lowest set one.
\<close>

definition bsf :: "u32 \<Rightarrow> nat" where
  "bsf m = length (takeWhile (\<lambda>n. \<not> bit m n) [0..<32])"

definition bscf :: "u32 \<Rightarrow> nat \<times> u32" where
  "bscf m = (let n = bsf m in (n, unset_bit n m))"

text \<open>\<open>foreach_active(mask, f)\<close>: \<open>m = movemask(mask); while (m) { int i = bscf(m); f(i); }\<close>.
  The effect of \<open>f\<close> is a state transformer; the loop threads the state.\<close>

function foreach_active_loop :: "u32 \<Rightarrow> (nat \<Rightarrow> 's \<Rightarrow> 's) \<Rightarrow> 's \<Rightarrow> 's" where
  "foreach_active_loop m f s =
     (if m \<noteq> 0 then (case bscf m of (n, m') \<Rightarrow> foreach_active_loop m' f (f n s)) else s)"
  by pat_completeness auto
termination
proof (relation "measure (\<lambda>(m, f, s). unat m)", goal_cases)
  case 1
  show ?case by simp
next
  case (2 m f s n m')
  let ?P = "\<lambda>j. \<not> bit m j"
  from \<open>m \<noteq> 0\<close> obtain k where k: "bit m k" by (auto simp add: bit_eq_iff)
  then have "k < 32" using bit_imp_le_length [of m k] by simp
  with k have "\<not> (\<forall>j\<in>set [0..<32]. ?P j)" by auto
  then have "takeWhile ?P [0..<32] \<noteq> [0..<32]"
    by (metis takeWhile_eq_all_conv)
  then have "length (takeWhile ?P [0..<32]) \<noteq> length [0..<32]"
    by (metis takeWhile_eq_take take_all order_refl)
  with length_takeWhile_le [of ?P "[0..<32]"]
  have lt: "length (takeWhile ?P [0..<32]) < length [0..<32]"
    by linarith
  from nth_length_takeWhile [OF lt] lt have b: "bit m (bsf m)"
    by (simp add: bsf_def)
  have "unset_bit (bsf m) m \<noteq> m"
    using b bit_imp_le_length [of m "bsf m"] by (simp add: unset_bit_eq_idem_iff)
  moreover have "unset_bit (bsf m) m \<le> m"
    by (simp add: unset_bit_eq_and_not word_and_le2)
  ultimately have "unset_bit (bsf m) m < m" by simp
  then have "unat (unset_bit (bsf m) m) < unat m" by (simp add: word_less_nat_alt)
  with 2 show ?case
    by (simp add: bscf_def Let_def)
qed

declare foreach_active_loop.simps [simp del]

definition foreach_active :: "vec_bool \<Rightarrow> (nat \<Rightarrow> 's \<Rightarrow> 's) \<Rightarrow> 's \<Rightarrow> 's" where
  "foreach_active mk f s = (let m = movemask mk in foreach_active_loop m f s)"

section \<open>Loader strategy and the free load and store functions\<close>

text \<open>
  Memory is a function from addresses to values; a pointer lane vector \<open>vec<T*,A>\<close> is a
  vector of addresses. \<open>detail::base_loader<T,A>\<close> has four static members, which the
  default \<open>detail::loader<T,A>\<close> inherits unchanged. The loads update the vector \<open>u\<close>
  passed by reference and the stores update memory; both are returned.
\<close>

type_synonym 'a mem = "nat \<Rightarrow> 'a"

definition base_loader_load_masked ::
  "'a mem \<Rightarrow> 'a vec \<Rightarrow> nat vec \<Rightarrow> vec_bool \<Rightarrow> 'a vec" where
  "base_loader_load_masked mem u ps m =
     foreach_active m (\<lambda>n r. vec_put r n (mem (vec_get ps n))) u"

definition base_loader_load :: "nat \<Rightarrow> 'a mem \<Rightarrow> 'a vec \<Rightarrow> nat vec \<Rightarrow> 'a vec" where
  "base_loader_load w mem u ps = fold (\<lambda>n r. vec_put r n (mem (vec_get ps n))) [0..<w] u"

definition base_loader_store_masked ::
  "'a mem \<Rightarrow> nat vec \<Rightarrow> 'a vec \<Rightarrow> vec_bool \<Rightarrow> 'a mem" where
  "base_loader_store_masked mem ps u m =
     foreach_active m (\<lambda>n mm. mm(vec_get ps n := vec_get u n)) mem"

definition base_loader_store :: "nat \<Rightarrow> 'a mem \<Rightarrow> nat vec \<Rightarrow> 'a vec \<Rightarrow> 'a mem" where
  "base_loader_store w mem ps u = fold (\<lambda>n mm. mm(vec_get ps n := vec_get u n)) [0..<w] mem"

text \<open>
  The free functions call the loader's members by qualified name. A call
  \<open>detail::loader<T,A>::name(result, pointers, mask)\<close> is well formed only when the
  loader has a member of that name taking a vector, the pointers and a mask.
  \<open>load_masked\<close> is the only such member: \<open>load\<close> and \<open>store\<close> take two parameters, and
  \<open>store_masked\<close> takes the pointers first. The lookup returns the member, or \<open>None\<close>
  when the call does not resolve.
\<close>

definition loader_vector_pointers_mask ::
  "string \<Rightarrow> ('a mem \<Rightarrow> 'a vec \<Rightarrow> nat vec \<Rightarrow> vec_bool \<Rightarrow> 'a vec) option" where
  "loader_vector_pointers_mask name =
     (if name = ''load_masked'' then Some base_loader_load_masked else None)"

text \<open>\<open>load(pointers, mask)\<close>: \<open>vec<T,A> result;
  detail::loader<T,A>::load(result, pointers, mask); return result;\<close> The result is
  optional: there is a vector only when the call resolves.\<close>

definition load_pointers_mask ::
  "nat \<Rightarrow> 'a::zero mem \<Rightarrow> nat vec \<Rightarrow> vec_bool \<Rightarrow> 'a vec option" where
  "load_pointers_mask w mem pointers mk =
     (let result = vec_default w
      in map_option (\<lambda>member. member mem result pointers mk)
           (loader_vector_pointers_mask ''load''))"

text \<open>\<open>store(pointers, t, mask)\<close> and \<open>store(pointers, t)\<close>. The unmasked free function
  \<open>load(pointers)\<close> has no model: its \<open>noexcept\<close> clause passes the temporary
  \<open>vec<T,A>()\<close> where the loader's \<open>load\<close> takes \<open>vector &\<close>, so the template cannot be
  instantiated, and no statement below is about it.\<close>

definition store_pointers_mask ::
  "'a mem \<Rightarrow> nat vec \<Rightarrow> 'a vec \<Rightarrow> vec_bool \<Rightarrow> 'a mem" where
  "store_pointers_mask mem pointers t mk = base_loader_store_masked mem pointers t mk"

definition store_pointers :: "nat \<Rightarrow> 'a mem \<Rightarrow> nat vec \<Rightarrow> 'a vec \<Rightarrow> 'a mem" where
  "store_pointers w mem pointers t = base_loader_store w mem pointers t"

section \<open>Composite vectors: \<open>vec<std::pair<S,T>,A>\<close> and \<open>vec<std::tuple<Ts...>,A>\<close>\<close>

text \<open>
  The pair vector holds \<open>vec<S,A> first\<close> and \<open>vec<T,A> second\<close>; its constructor from a
  scalar pair broadcasts each field (\<open>first(that.first), second(that.second)\<close>).

  The tuple vector holds \<open>std::tuple<vec<Ts,A>...> data\<close>. The pack \<open>Ts...\<close> is a list
  here, one element type standing for the pack's types: the tuple of scalars is a list
  of values and the tuple of component vectors a list of vectors of the same length.
  The constructor from a scalar tuple is \<open>vec(std::tuple<Ts...> b) : data() {}\<close>:
  it value-initialises one component vector per element of the pack and reads nothing
  of \<open>b\<close>. \<open>get(n)\<close> makes the tuple of the components' lanes \<open>n\<close>.

  The pair vector's \<open>get(n)\<close> is \<open>make_pair(first.get(n), second.get(n))\<close>, the name
  unqualified: it is found (as \<open>std::make_pair\<close>) only when a field type brings namespace
  \<open>std\<close> into the lookup, and not for arithmetic fields. The model is the pair that
  \<open>std::make_pair\<close> builds.
\<close>

definition vec_pair_ctor :: "nat \<Rightarrow> 'a::zero \<times> 'b::zero \<Rightarrow> 'a vec \<times> 'b vec" where
  "vec_pair_ctor w that = (vec_broadcast w (fst that), vec_broadcast w (snd that))"

definition vec_pair_get :: "'a vec \<times> 'b vec \<Rightarrow> nat \<Rightarrow> 'a \<times> 'b" where
  "vec_pair_get p n = (vec_get (fst p) n, vec_get (snd p) n)"

definition vec_tuple_ctor :: "nat \<Rightarrow> 'a list \<Rightarrow> ('a::zero) vec list" where
  "vec_tuple_ctor w b = map (\<lambda>component. vec_default w) b"

definition vec_tuple_get :: "'a vec list \<Rightarrow> nat \<Rightarrow> 'a list" where
  "vec_tuple_get d n = map (\<lambda>component. vec_get component n) d"

section \<open>Operator algebra: \<open>RTS_BINOP_LHS\<close> and \<open>RTS_BINOP_RHS\<close>\<close>

text \<open>
  For each operator \<open>op\<close> the macros define three function templates: vector with
  vector, vector with scalar, and (\<open>RTS_BINOP_RHS\<close>) scalar with vector. Each
  default-constructs \<open>vec<decltype(l.get(0) op r.get(0)), A> result\<close> and runs
  \<open>for (int i = 0; i < A::width; ++i) result.put(i, l.get(i) op r.get(i))\<close>. The scalar
  operator is the parameter \<open>op\<close>. When it yields \<open>bool\<close> (the comparisons and \<open>&&\<close>,
  \<open>||\<close>) the result type is the mask vector \<open>vec<bool,A>\<close>, whose \<open>put\<close> packs bits:
  these are the \<open>_bool\<close> variants of the same loop.
\<close>

definition binop_vv :: "nat \<Rightarrow> ('a \<Rightarrow> 'b \<Rightarrow> 'c::zero) \<Rightarrow> 'a vec \<Rightarrow> 'b vec \<Rightarrow> 'c vec" where
  "binop_vv w op l r =
     fold (\<lambda>n result. vec_put result n (op (vec_get l n) (vec_get r n))) [0..<w]
       (vec_default w)"

definition binop_vs :: "nat \<Rightarrow> ('a \<Rightarrow> 'b \<Rightarrow> 'c::zero) \<Rightarrow> 'a vec \<Rightarrow> 'b \<Rightarrow> 'c vec" where
  "binop_vs w op l r =
     fold (\<lambda>n result. vec_put result n (op (vec_get l n) r)) [0..<w] (vec_default w)"

definition binop_sv :: "nat \<Rightarrow> ('a \<Rightarrow> 'b \<Rightarrow> 'c::zero) \<Rightarrow> 'a \<Rightarrow> 'b vec \<Rightarrow> 'c vec" where
  "binop_sv w op l r =
     fold (\<lambda>n result. vec_put result n (op l (vec_get r n))) [0..<w] (vec_default w)"

definition binop_vv_bool :: "nat \<Rightarrow> ('a \<Rightarrow> 'b \<Rightarrow> bool) \<Rightarrow> 'a vec \<Rightarrow> 'b vec \<Rightarrow> vec_bool" where
  "binop_vv_bool w op l r =
     fold (\<lambda>n result. vec_bool_put result n (op (vec_get l n) (vec_get r n))) [0..<w]
       vec_bool_default"

definition binop_vs_bool :: "nat \<Rightarrow> ('a \<Rightarrow> 'b \<Rightarrow> bool) \<Rightarrow> 'a vec \<Rightarrow> 'b \<Rightarrow> vec_bool" where
  "binop_vs_bool w op l r =
     fold (\<lambda>n result. vec_bool_put result n (op (vec_get l n) r)) [0..<w] vec_bool_default"

definition binop_sv_bool :: "nat \<Rightarrow> ('a \<Rightarrow> 'b \<Rightarrow> bool) \<Rightarrow> 'a \<Rightarrow> 'b vec \<Rightarrow> vec_bool" where
  "binop_sv_bool w op l r =
     fold (\<lambda>n result. vec_bool_put result n (op l (vec_get r n))) [0..<w] vec_bool_default"

section \<open>The specialisations \<open>vec<std::int32_t,avx_4>\<close> and \<open>vec<std::int32_t,avx2_8>\<close>\<close>

text \<open>
  Under \<open>__AVX__\<close> and \<open>__AVX2__\<close> the vector of \<open>std::int32_t\<close> is a union of a hardware
  register \<open>m\<close> (\<open>__m128i\<close>, \<open>__m256i\<close>) and the array \<open>d\<close> of its 4 or 8 lanes; a vector
  is the list of its lanes, each a 32-bit word read in two's complement. These are the
  default vectors of such a build (\<open>default_isa\<close> is \<open>avx_4\<close> or \<open>avx2_8\<close>).

  The structs define their own operators as non-template members:
  \<open>RTS_DEF_BINOP(op, fun)\<close> gives \<open>vec operator op (const vec & rhs) const\<close> with body
  \<open>return vec(fun(m, rhs.m), detail::internal_tag)\<close>, and \<open>RTS_DEF_SHIFT(op, fun)\<close> gives
  \<open>vec operator op (const int & rhs) const\<close> with body
  \<open>auto r = fun(m, rhs); return vec(r, detail::internal_tag)\<close>. For two such vectors,
  and for such a vector and an \<open>int\<close> shift count, overload resolution prefers the
  member to the function templates of \<open>RTS_BINOP\<close>, which match equally well.

  The intrinsics come from \<open>immintrin.h\<close>, which is not code of this repository; they
  are taken with the lane-wise meaning of the instruction set reference, the same for
  the 128-bit (\<open>_mm_\<close>) and 256-bit (\<open>_mm256_\<close>) forms: \<open>add_epi32\<close>, \<open>sub_epi32\<close> and
  \<open>mullo_epi32\<close> are the wrapping sum, difference and low product of the lanes,
  \<open>and\<close>, \<open>or\<close>, \<open>xor\<close> are bitwise, \<open>slli_epi32\<close> shifts each lane left and
  \<open>srli_epi32\<close> shifts each lane right, both shifting in zeros and giving zero for a
  count above 31. The shift count is a natural number here.
\<close>

definition mm_add_epi32 :: "u32 list \<Rightarrow> u32 list \<Rightarrow> u32 list" where
  "mm_add_epi32 a b = map2 (+) a b"

definition mm_sub_epi32 :: "u32 list \<Rightarrow> u32 list \<Rightarrow> u32 list" where
  "mm_sub_epi32 a b = map2 (-) a b"

definition mm_mullo_epi32 :: "u32 list \<Rightarrow> u32 list \<Rightarrow> u32 list" where
  "mm_mullo_epi32 a b = map2 (*) a b"

definition mm_and_si :: "u32 list \<Rightarrow> u32 list \<Rightarrow> u32 list" where
  "mm_and_si a b = map2 (AND) a b"

definition mm_or_si :: "u32 list \<Rightarrow> u32 list \<Rightarrow> u32 list" where
  "mm_or_si a b = map2 (OR) a b"

definition mm_xor_si :: "u32 list \<Rightarrow> u32 list \<Rightarrow> u32 list" where
  "mm_xor_si a b = map2 (XOR) a b"

definition mm_slli_epi32 :: "u32 list \<Rightarrow> nat \<Rightarrow> u32 list" where
  "mm_slli_epi32 a imm8 = map (\<lambda>x. if imm8 > 31 then 0 else push_bit imm8 x) a"

definition mm_srli_epi32 :: "u32 list \<Rightarrow> nat \<Rightarrow> u32 list" where
  "mm_srli_epi32 a imm8 = map (\<lambda>x. if imm8 > 31 then 0 else drop_bit imm8 x) a"

text \<open>The member operators \<open>+\<close>, \<open>-\<close>, \<open>*\<close>, \<open>&\<close>, \<open>|\<close>, \<open>^\<close> (\<open>RTS_DEF_BINOP\<close>) and \<open><<\<close>,
  \<open>>>\<close> (\<open>RTS_DEF_SHIFT\<close>). The compound forms store the same register into \<open>m\<close>.\<close>

definition vec_int32_avx_add :: "u32 vec \<Rightarrow> u32 vec \<Rightarrow> u32 vec" where
  "vec_int32_avx_add m rhs = mm_add_epi32 m rhs"

definition vec_int32_avx_sub :: "u32 vec \<Rightarrow> u32 vec \<Rightarrow> u32 vec" where
  "vec_int32_avx_sub m rhs = mm_sub_epi32 m rhs"

definition vec_int32_avx_mul :: "u32 vec \<Rightarrow> u32 vec \<Rightarrow> u32 vec" where
  "vec_int32_avx_mul m rhs = mm_mullo_epi32 m rhs"

definition vec_int32_avx_and :: "u32 vec \<Rightarrow> u32 vec \<Rightarrow> u32 vec" where
  "vec_int32_avx_and m rhs = mm_and_si m rhs"

definition vec_int32_avx_or :: "u32 vec \<Rightarrow> u32 vec \<Rightarrow> u32 vec" where
  "vec_int32_avx_or m rhs = mm_or_si m rhs"

definition vec_int32_avx_xor :: "u32 vec \<Rightarrow> u32 vec \<Rightarrow> u32 vec" where
  "vec_int32_avx_xor m rhs = mm_xor_si m rhs"

definition vec_int32_avx_shl :: "u32 vec \<Rightarrow> nat \<Rightarrow> u32 vec" where
  "vec_int32_avx_shl m rhs = (let r = mm_slli_epi32 m rhs in r)"

definition vec_int32_avx_shr :: "u32 vec \<Rightarrow> nat \<Rightarrow> u32 vec" where
  "vec_int32_avx_shr m rhs = (let r = mm_srli_epi32 m rhs in r)"

text \<open>The scalar operators \<open><<\<close> and \<open>>>\<close> of \<open>std::int32_t\<close>, for a count in \<open>[0, 32)\<close>:
  the left shift of the two's-complement pattern, and the right shift that keeps the
  sign (arithmetic; what C++20 defines and what the compilers of the x86 targets did
  before it).\<close>

definition int32_shl :: "u32 \<Rightarrow> nat \<Rightarrow> u32" where
  "int32_shl x s = push_bit s x"

definition int32_shr :: "u32 \<Rightarrow> nat \<Rightarrow> u32" where
  "int32_shr x s = signed_drop_bit s x"

section \<open>Element pointers: \<open>detail::const_vptr\<close> and \<open>detail::vptr\<close>\<close>

text \<open>
  \<open>const_vptr<T,A>\<close> and \<open>vptr<T,A>\<close> hold a pointer \<open>v\<close> to a vector and a lane index
  \<open>i\<close> of type \<open>int32_t\<close>. The two structs carry the same arithmetic, written out twice
  in the source, so one record stands for both. The field \<open>v\<close> is the address counted in
  whole vectors (C++ pointer arithmetic on \<open>vec<T,A> *\<close> moves by whole vectors), the
  field \<open>i\<close> the lane index. The width \<open>A::width\<close> is an \<open>int\<close> here, as in the source.

  \<open>std::ptrdiff_t\<close> and \<open>int32_t\<close> are read as mathematical integers: signed overflow is
  undefined in C++, and nothing below depends on values near those bounds. The C++
  operators \<open>/\<close> and \<open>%\<close> truncate towards zero: they are \<open>sdiv\<close> and \<open>smod\<close>.

  The constructors \<open>vptr(v, i)\<close> and \<open>const_vptr(v, i)\<close> run
  \<open>assert(0 <= i && i < A::width)\<close>, which a release build compiles out. The model is
  the release build; the asserted condition is the predicate \<open>vptr_assert\<close>.
\<close>

record vptr =
  v :: int
  i :: int

definition make_vptr :: "int \<Rightarrow> int \<Rightarrow> vptr" where
  "make_vptr a l = \<lparr>v = a, i = l\<rparr>"

definition vptr_assert :: "int \<Rightarrow> vptr \<Rightarrow> bool" where
  "vptr_assert w p = (0 \<le> i p \<and> i p < w)"

text \<open>\<open>operator + (vptr & lhs, std::ptrdiff_t j)\<close>, and the same body for \<open>const_vptr\<close>.\<close>

definition vptr_plus :: "int \<Rightarrow> vptr \<Rightarrow> int \<Rightarrow> vptr" where
  "vptr_plus w lhs j =
     (let k = i lhs + j;
          a = v lhs + k sdiv w;
          l = k smod w
      in if l < 0 then make_vptr (a - 1) (l + 1) else make_vptr a l)"

text \<open>\<open>operator + (std::ptrdiff_t j, vptr & rhs)\<close>.\<close>

definition plus_vptr :: "int \<Rightarrow> int \<Rightarrow> vptr \<Rightarrow> vptr" where
  "plus_vptr w j rhs =
     (let k = j + i rhs;
          a = v rhs + k sdiv w;
          l = k smod w
      in if l < 0 then make_vptr (a - 1) (l + 1) else make_vptr a l)"

text \<open>\<open>operator +=\<close> and \<open>operator -=\<close>: the pointer is updated in place; the model
  returns the updated pointer.\<close>

definition vptr_add_assign :: "int \<Rightarrow> vptr \<Rightarrow> int \<Rightarrow> vptr" where
  "vptr_add_assign w p j =
     (let k = i p + j;
          p1 = p\<lparr>v := v p + k sdiv w\<rparr>;
          p2 = p1\<lparr>i := k smod w\<rparr>
      in if i p2 < 0 then p2\<lparr>i := i p2 + 1, v := v p2 - 1\<rparr> else p2)"

definition vptr_sub_assign :: "int \<Rightarrow> vptr \<Rightarrow> int \<Rightarrow> vptr" where
  "vptr_sub_assign w p j =
     (let k = i p - j;
          p1 = p\<lparr>v := v p + k sdiv w\<rparr>;
          p2 = p1\<lparr>i := k smod w\<rparr>
      in if i p2 < 0 then p2\<lparr>i := i p2 + 1, v := v p2 - 1\<rparr> else p2)"

text \<open>\<open>operator - (const const_vptr & lhs, const const_vptr & rhs)\<close>.\<close>

definition vptr_diff :: "int \<Rightarrow> vptr \<Rightarrow> vptr \<Rightarrow> int" where
  "vptr_diff w lhs rhs = w * (v lhs - v rhs) + i lhs - i rhs"

text \<open>\<open>operator ==\<close> on two pointers.\<close>

definition vptr_eq :: "vptr \<Rightarrow> vptr \<Rightarrow> bool" where
  "vptr_eq lhs rhs = (v lhs = v rhs \<and> i lhs = i rhs)"

text \<open>Pre-increment and pre-decrement: the pointer is updated in place and returned.\<close>

definition vptr_pre_inc :: "int \<Rightarrow> vptr \<Rightarrow> vptr" where
  "vptr_pre_inc w lhs =
     (let p1 = lhs\<lparr>i := i lhs + 1\<rparr>
      in if i p1 > w then p1\<lparr>i := 0, v := v p1 + 1\<rparr> else p1)"

definition vptr_pre_dec :: "int \<Rightarrow> vptr \<Rightarrow> vptr" where
  "vptr_pre_dec w lhs =
     (let p1 = lhs\<lparr>i := i lhs - 1\<rparr>
      in if i p1 < 0 then p1\<lparr>i := w - 1, v := v p1 - 1\<rparr> else p1)"

text \<open>Post-increment and post-decrement: \<open>result = lhs; ++lhs; return result;\<close>. The
  pair is (returned copy, updated operand). The source declares the pre-increment on
  \<open>const_vptr &\<close> twice, returning \<open>const_vptr &\<close> and returning \<open>vptr &\<close>, with the same
  body, so the call \<open>++lhs\<close> is ambiguous to a compiler; the model reads it as that one
  body. The same holds for the decrement.\<close>

definition vptr_post_inc :: "int \<Rightarrow> vptr \<Rightarrow> vptr \<times> vptr" where
  "vptr_post_inc w lhs = (let result = lhs in (result, vptr_pre_inc w lhs))"

definition vptr_post_dec :: "int \<Rightarrow> vptr \<Rightarrow> vptr \<times> vptr" where
  "vptr_post_dec w lhs = (let result = lhs in (result, vptr_pre_dec w lhs))"

text \<open>
  The advance as the specification words it, for comparison with the code: with
  \<open>i' = i + k\<close>, \<open>q = floor (i' / width)\<close> and \<open>r = i' - q * width\<close>, the result is
  vector \<open>V + q\<close>, lane \<open>r\<close>. On \<open>int\<close>, \<open>div\<close> is the floor division.
\<close>

definition floor_advance :: "int \<Rightarrow> vptr \<Rightarrow> int \<Rightarrow> vptr" where
  "floor_advance w p k =
     (let i' = i p + k; q = i' div w; r = i' - q * w in make_vptr (v p + q) r)"

section \<open>Facts about the mask representation\<close>

lemma width_mask_eq: "width_mask w = mask w"
  by (simp add: width_mask_def mask_eq_exp_minus_1 push_bit_eq_mult)

lemma vec_bool_get_bit: "n < 32 \<Longrightarrow> vec_bool_get m n = bit (data m) n"
proof -
  assume n: "n < 32"
  have "(ucast (data m) AND bit1ul n) = (if bit (data m) n then bit1ul n else 0)"
    unfolding bit1ul_def using n
    by (intro bit_word_eqI) (auto simp add: bit_simps)
  moreover have "bit1ul n \<noteq> 0" using n
    by (simp add: bit1ul_def push_bit_eq_mult)
  ultimately show ?thesis by (simp add: vec_bool_get_def)
qed

lemma or_bit1ul: "n < 32 \<Longrightarrow> (ucast (ucast (d::u32) OR bit1ul n) :: u32) = set_bit n d"
  unfolding bit1ul_def by (auto intro!: bit_word_eqI simp add: bit_simps)

lemma and_not_bit1ul:
  "n < 32 \<Longrightarrow> (ucast (ucast (d::u32) AND NOT (bit1ul n)) :: u32) = unset_bit n d"
  unfolding bit1ul_def by (auto intro!: bit_word_eqI simp add: bit_simps)

lemma vec_bool_put_data:
  "n < 32 \<Longrightarrow>
   data (vec_bool_put m n b) = (if b then set_bit n (data m) else unset_bit n (data m))"
  by (simp add: vec_bool_put_def or_bit1ul and_not_bit1ul)

text \<open>A word has no bit outside the mask exactly when all its set bits are below \<open>w\<close>.\<close>

lemma inside_mask_iff:
  "(d AND NOT (width_mask w) = 0) = (\<forall>j. bit (d::u32) j \<longrightarrow> j < w)"
proof -
  have "(d AND NOT (width_mask w) = 0) = (\<forall>j<32. bit d j \<longrightarrow> j < w)"
    unfolding width_mask_eq
    by (auto simp add: bit_eq_iff bit_simps not_less)
  also have "\<dots> = (\<forall>j. bit d j \<longrightarrow> j < w)"
    using bit_imp_le_length [of d] by fastforce
  finally show ?thesis .
qed

lemma bit_width_mask: "bit (width_mask w) j = (j < 32 \<and> j < w)"
  by (auto simp add: width_mask_eq bit_simps)

lemma init_list_loop_inside:
  "d AND NOT (width_mask w) = 0 \<Longrightarrow> k + length bs \<le> w \<Longrightarrow>
   init_list_loop bs (2 ^ k) d AND NOT (width_mask w) = 0"
proof (induction bs arbitrary: k d)
  case Nil
  then show ?case by simp
next
  case (Cons b bs)
  have step: "(if b then d OR 2 ^ k else d) AND NOT (width_mask w) = 0"
    using Cons.prems by (auto simp add: inside_mask_iff bit_simps bit_exp_iff)
  have sh: "push_bit 1 ((2::u32) ^ k) = 2 ^ Suc k"
    by (simp add: push_bit_eq_mult)
  have "init_list_loop (b # bs) (2 ^ k) d
        = init_list_loop bs (2 ^ Suc k) (if b then d OR 2 ^ k else d)"
    by (simp only: init_list_loop.simps sh)
  moreover have
    "init_list_loop bs (2 ^ Suc k) (if b then d OR 2 ^ k else d) AND NOT (width_mask w) = 0"
    using Cons.prems(2) by (intro Cons.IH [OF step]) simp
  ultimately show ?case by simp
qed

lemma of_vec_loop_inside:
  "d AND NOT (width_mask w) = 0 \<Longrightarrow> \<forall>n\<in>set ns. n < w \<and> n < 32 \<Longrightarrow>
   fold (\<lambda>n d. if that n then ucast (ucast d OR bit1ul n) else d) ns d
     AND NOT (width_mask w) = 0"
proof (induction ns arbitrary: d)
  case Nil
  then show ?case by simp
next
  case (Cons n ns)
  have "(if that n then ucast (ucast d OR bit1ul n) else d) AND NOT (width_mask w) = 0"
    using Cons.prems by (auto simp add: or_bit1ul inside_mask_iff bit_simps)
  with Cons show ?case by simp
qed

section \<open>Facts about the lane loops\<close>

lemma fold_put_upt:
  "k \<le> length res \<Longrightarrow>
   fold (\<lambda>n result. vec_put result n (g n)) [0..<k] res = map g [0..<k] @ drop k res"
proof (induction k)
  case 0
  then show ?case by simp
next
  case (Suc k)
  then have k: "k < length res" by simp
  have "fold (\<lambda>n result. vec_put result n (g n)) [0..<Suc k] res
        = vec_put (map g [0..<k] @ drop k res) k (g k)"
    using Suc by simp
  also have "\<dots> = map g [0..<k] @ (drop k res)[0 := g k]"
    by (simp add: vec_put_def list_update_append)
  also have "drop k res = res ! k # drop (Suc k) res"
    using k by (simp add: Cons_nth_drop_Suc)
  finally show ?case by simp
qed

lemma fold_put_lane:
  assumes "n < w"
  shows "vec_get (fold (\<lambda>n result. vec_put result n (g n)) [0..<w] (vec_default w)) n = g n"
    and "length (fold (\<lambda>n result. vec_put result n (g n)) [0..<w] (vec_default w)) = w"
proof -
  have "fold (\<lambda>n result. vec_put result n (g n)) [0..<w] (vec_default w) = map g [0..<w]"
    using fold_put_upt [of w "vec_default w" g] by (simp add: vec_default_def)
  with assms
  show "vec_get (fold (\<lambda>n result. vec_put result n (g n)) [0..<w] (vec_default w)) n = g n"
    and "length (fold (\<lambda>n result. vec_put result n (g n)) [0..<w] (vec_default w)) = w"
    by (simp_all add: vec_get_def)
qed

lemma fold_put_bool_bits:
  "k \<le> 32 \<Longrightarrow>
   bit (data (fold (\<lambda>n result. vec_bool_put result n (g n)) [0..<k] m)) j
   = (if j < k then g j else bit (data m) j)"
proof (induction k)
  case 0
  then show ?case by simp
next
  case (Suc k)
  then have k: "k < 32" by simp
  show ?case using Suc k
    by (auto simp add: vec_bool_put_data bit_simps less_Suc_eq dest: bit_imp_le_length)
qed

lemma fold_put_bool_lane:
  assumes "n < w" "w \<le> 32"
  shows "vec_bool_get
           (fold (\<lambda>n result. vec_bool_put result n (g n)) [0..<w] vec_bool_default) n = g n"
  using assms by (simp add: vec_bool_get_bit fold_put_bool_bits)

lemma fold_put_list:
  "j < length u \<Longrightarrow>
   vec_get (fold (\<lambda>n r. vec_put r n (g n)) ns u) j
   = (if j \<in> set ns then g j else vec_get u j)"
proof (induction ns arbitrary: u)
  case Nil
  then show ?case by simp
next
  case (Cons n ns)
  have "j < length (vec_put u n (g n))" using Cons.prems by (simp add: vec_put_def)
  from Cons.IH [OF this] Cons.prems show ?case
    by (auto simp add: vec_put_def vec_get_def)
qed

section \<open>Facts about the bit scan and the active-lane loop\<close>

lemma bsf_props:
  assumes "m \<noteq> 0"
  shows "bit m (bsf m)" and "bsf m < 32" and "\<forall>j<bsf m. \<not> bit m j"
proof -
  let ?P = "\<lambda>j. \<not> bit m j"
  from assms obtain k where k: "bit m k" by (auto simp add: bit_eq_iff)
  then have "k < 32" using bit_imp_le_length [of m k] by simp
  with k have "\<not> (\<forall>j\<in>set [0..<32]. ?P j)" by auto
  then have "takeWhile ?P [0..<32] \<noteq> [0..<32]"
    by (metis takeWhile_eq_all_conv)
  then have "length (takeWhile ?P [0..<32]) \<noteq> length [0..<32]"
    by (metis takeWhile_eq_take take_all order_refl)
  with length_takeWhile_le [of ?P "[0..<32]"]
  have lt: "length (takeWhile ?P [0..<32]) < length [0..<32]"
    by linarith
  from nth_length_takeWhile [OF lt] lt show "bit m (bsf m)"
    by (simp add: bsf_def)
  from lt show "bsf m < 32" by (simp add: bsf_def)
  have tk: "takeWhile ?P [0..<32] = [0..<bsf m]"
    using lt takeWhile_eq_take [of ?P "[0..<32]"] by (simp add: bsf_def take_upt)
  show "\<forall>j<bsf m. \<not> bit m j"
  proof (intro allI impI)
    fix j assume "j < bsf m"
    then have "j \<in> set (takeWhile ?P [0..<32])" by (simp add: tk)
    then show "\<not> bit m j" by (rule set_takeWhileD [THEN conjunct2])
  qed
qed

text \<open>One turn of the loop takes the head off the ascending list of set bits.\<close>

lemma active_lanes_step:
  assumes "m \<noteq> (0::u32)"
  shows "filter (bit m) [0..<32] = bsf m # filter (bit (unset_bit (bsf m) m)) [0..<32]"
proof -
  let ?n = "bsf m"
  note p = bsf_props [OF assms]
  have split: "[0..<32] = [0..<?n] @ ?n # [Suc ?n..<32]"
    using p(2)
    by (metis upt_conv_Cons upt_add_eq_append le0 less_imp_le_nat le_add_diff_inverse)
  have a: "filter (bit m) [0..<?n] = []" using p(3) by (simp add: filter_empty_conv)
  have b: "filter (bit (unset_bit ?n m)) [0..<?n] = []"
    using p(3) by (simp add: filter_empty_conv bit_unset_bit_iff)
  have c: "filter (bit (unset_bit ?n m)) [Suc ?n..<32] = filter (bit m) [Suc ?n..<32]"
    by (rule filter_cong) (auto simp add: bit_unset_bit_iff)
  have "filter (bit m) [0..<32] = ?n # filter (bit m) [Suc ?n..<32]"
    by (subst split) (simp add: a p(1))
  moreover have "filter (bit (unset_bit ?n m)) [0..<32] = filter (bit m) [Suc ?n..<32]"
    by (subst split) (simp add: b c bit_unset_bit_iff)
  ultimately show ?thesis by simp
qed

lemma foreach_active_loop_fold:
  "foreach_active_loop m f s = fold f (filter (bit m) [0..<32]) s"
proof (induction m f s rule: foreach_active_loop.induct)
  case (1 m f s)
  show ?case
  proof (cases "m = 0")
    case True
    then show ?thesis
      by (subst foreach_active_loop.simps) (simp add: filter_empty_conv)
  next
    case False
    have "foreach_active_loop m f s
          = foreach_active_loop (unset_bit (bsf m) m) f (f (bsf m) s)"
      using False by (subst foreach_active_loop.simps) (simp add: bscf_def Let_def)
    also have "\<dots> = fold f (filter (bit (unset_bit (bsf m) m)) [0..<32]) (f (bsf m) s)"
      by (rule "1.IH" [OF False, of "bsf m" "unset_bit (bsf m) m"])
        (simp add: bscf_def Let_def)
    also have "\<dots> = fold f (filter (bit m) [0..<32]) s"
      by (simp add: active_lanes_step [OF False])
    finally show ?thesis .
  qed
qed

text \<open>The default loader's masked load, lane by lane: a lane whose mask bit is set
  receives the value at its address, every other lane keeps what the destination held.\<close>

lemma base_loader_load_masked_lanes:
  assumes "length u = w" "w \<le> 32" "j < w"
  shows "vec_get (base_loader_load_masked mem u ps m) j
         = (if vec_bool_get m j then mem (vec_get ps j) else vec_get u j)"
proof -
  have "j < 32" using assms by simp
  then show ?thesis using assms
    by (simp add: base_loader_load_masked_def foreach_active_def foreach_active_loop_fold
        fold_put_list vec_bool_get_bit movemask_def del: upt.upt_Suc)
qed

section \<open>Element pointers: what the code computes\<close>

lemma floor_advance_lane: "0 < w \<Longrightarrow> vptr_assert w (floor_advance w p k)"
  by (simp add: floor_advance_def vptr_assert_def make_vptr_def Let_def
      minus_div_mult_eq_mod)

text \<open>When the flattened lane index \<open>i + j\<close> is not negative, truncation and floor
  agree and the code's advance is the specified one.\<close>

lemma vptr_plus_nonneg:
  assumes "0 < w" "0 \<le> i p + j"
  shows "vptr_plus w p j = floor_advance w p j"
proof -
  from assms have "(i p + j) sdiv w = (i p + j) div w"
    by (simp add: signed_divide_int_def sgn_if)
  moreover from assms have "(i p + j) smod w = (i p + j) mod w"
    by (simp add: signed_modulo_int_def sgn_if)
  moreover from assms have "0 \<le> (i p + j) mod w" by simp
  ultimately show ?thesis
    by (simp add: vptr_plus_def floor_advance_def Let_def minus_div_mult_eq_mod)
qed

text \<open>The decrement is the floor advance by \<open>-1\<close>, and the increment the floor advance
  by 1 from every lane but the last.\<close>

lemma vptr_pre_dec_floor:
  assumes "0 < w" "vptr_assert w p"
  shows "vptr_pre_dec w p = floor_advance w p (- 1)"
proof (cases "i p = 0")
  case True
  have "(- 1 :: int) div w = - 1" using assms(1) by (simp add: div_eq_minus1)
  with True show ?thesis
    by (simp add: vptr_pre_dec_def floor_advance_def make_vptr_def Let_def)
next
  case False
  with assms have "0 \<le> i p - 1" "i p - 1 < w" by (simp_all add: vptr_assert_def)
  then show ?thesis
    by (simp add: vptr_pre_dec_def floor_advance_def make_vptr_def Let_def)
qed

lemma vptr_pre_inc_inner:
  assumes "vptr_assert w p" "i p + 1 < w"
  shows "vptr_pre_inc w p = floor_advance w p 1"
  using assms
  by (simp add: vptr_pre_inc_def floor_advance_def make_vptr_def vptr_assert_def Let_def)

section \<open>The claims\<close>

text \<open>
  Claim C1. The claim: for a pointer at lane \<open>i\<close> in \<open>[0, width)\<close> and any signed offset
  \<open>k\<close>, \<open>p + k\<close> is the floor advance, so its lane is in \<open>[0, width)\<close>. The code
  renormalises a negative remainder with \<open>i + 1\<close> and \<open>v - 1\<close>, not with \<open>i + width\<close>
  after a floor quotient. At width 4, from lane 0 of vector 10 with offset \<open>-2\<close>, both
  \<open>operator +\<close> and \<open>operator +=\<close> give vector 9, lane \<open>-1\<close>, which fails the
  constructor's own assertion; the floor advance is vector 9, lane 2. (\<open>operator -=\<close>
  with offset 2 does the same.)
\<close>

theorem vptr_plus_negative_offset_lane:
  "vptr_plus 4 \<lparr>v = 10, i = 0\<rparr> (- 2) = \<lparr>v = 9, i = - 1\<rparr>
   \<and> plus_vptr 4 (- 2) \<lparr>v = 10, i = 0\<rparr> = \<lparr>v = 9, i = - 1\<rparr>
   \<and> vptr_add_assign 4 \<lparr>v = 10, i = 0\<rparr> (- 2) = \<lparr>v = 9, i = - 1\<rparr>
   \<and> vptr_sub_assign 4 \<lparr>v = 10, i = 0\<rparr> 2 = \<lparr>v = 9, i = - 1\<rparr>
   \<and> \<not> vptr_assert 4 (vptr_plus 4 \<lparr>v = 10, i = 0\<rparr> (- 2))
   \<and> vptr_assert 4 \<lparr>v = 10, i = 0\<rparr>
   \<and> floor_advance 4 \<lparr>v = 10, i = 0\<rparr> (- 2) = \<lparr>v = 9, i = 2\<rparr>"
  by (simp add: vptr_plus_def plus_vptr_def vptr_add_assign_def vptr_sub_assign_def
      floor_advance_def vptr_assert_def make_vptr_def Let_def
      signed_divide_int_def signed_modulo_int_def)

text \<open>
  Claim C2. The claim: \<open>(p + a) + b == p + (a + b)\<close> and \<open>(p + a) - p == a\<close> for all
  integers \<open>a\<close>, \<open>b\<close>. With the code's renormalisation both fail as soon as an offset
  steps below lane 0: at width 4, from lane 0 of vector 10, \<open>p + (-1)\<close> is vector 9
  lane 0, so \<open>(p + (-1)) + 1\<close> is vector 9 lane 1 while \<open>p + 0\<close> is \<open>p\<close>, and
  \<open>(p + (-1)) - p\<close> is \<open>-4\<close>.
\<close>

theorem vptr_group_laws_negative_offset:
  "vptr_plus 4 (vptr_plus 4 \<lparr>v = 10, i = 0\<rparr> (- 1)) 1 = \<lparr>v = 9, i = 1\<rparr>
   \<and> vptr_plus 4 \<lparr>v = 10, i = 0\<rparr> (- 1 + 1) = \<lparr>v = 10, i = 0\<rparr>
   \<and> \<not> vptr_eq (vptr_plus 4 (vptr_plus 4 \<lparr>v = 10, i = 0\<rparr> (- 1)) 1)
            (vptr_plus 4 \<lparr>v = 10, i = 0\<rparr> (- 1 + 1))
   \<and> vptr_diff 4 (vptr_plus 4 \<lparr>v = 10, i = 0\<rparr> (- 1)) \<lparr>v = 10, i = 0\<rparr> = - 4"
  by (simp add: vptr_plus_def vptr_diff_def vptr_eq_def make_vptr_def Let_def
      signed_divide_int_def signed_modulo_int_def)

text \<open>
  Claim C3. The claim: increment is \<open>p + 1\<close>, decrement is \<open>p - 1\<close>, and incrementing at
  lane \<open>width - 1\<close> gives lane 0 of the next vector. The increment tests
  \<open>i > A::width\<close> where the wrap needs \<open>i >= A::width\<close>: at width 4, incrementing lane 3
  of vector 10 gives vector 10, lane 4 (pre and post alike), while \<open>p + 1\<close> gives
  vector 11, lane 0. The decrement does wrap to lane \<open>width - 1\<close>.
\<close>

theorem vptr_increment_last_lane:
  "vptr_pre_inc 4 \<lparr>v = 10, i = 3\<rparr> = \<lparr>v = 10, i = 4\<rparr>
   \<and> snd (vptr_post_inc 4 \<lparr>v = 10, i = 3\<rparr>) = \<lparr>v = 10, i = 4\<rparr>
   \<and> \<not> vptr_assert 4 (vptr_pre_inc 4 \<lparr>v = 10, i = 3\<rparr>)
   \<and> vptr_plus 4 \<lparr>v = 10, i = 3\<rparr> 1 = \<lparr>v = 11, i = 0\<rparr>
   \<and> floor_advance 4 \<lparr>v = 10, i = 3\<rparr> 1 = \<lparr>v = 11, i = 0\<rparr>
   \<and> vptr_pre_dec 4 \<lparr>v = 10, i = 0\<rparr> = \<lparr>v = 9, i = 3\<rparr>"
  by (simp add: vptr_pre_inc_def vptr_post_inc_def vptr_pre_dec_def vptr_plus_def
      floor_advance_def vptr_assert_def make_vptr_def Let_def
      signed_divide_int_def signed_modulo_int_def)

text \<open>
  Claim C4. For every mask vector \<open>m\<close>: \<open>any(m)\<close> is true if and only if
  \<open>movemask(m) != 0\<close>, and \<open>all(m)\<close> is true if and only if \<open>movemask(m)\<close> equals
  \<open>width_mask\<close>. (The functions return \<open>std::uint32_t\<close>; true is non-zero.)
\<close>

theorem any_all_movemask:
  "(any m \<noteq> 0) = (movemask m \<noteq> 0) \<and> (all w m \<noteq> 0) = (movemask m = width_mask w)"
  by (simp add: any_def all_def)

text \<open>
  Claim C5. For every mask vector and every function \<open>f\<close>, \<open>foreach_active\<close> invokes \<open>f\<close>
  exactly once on each index whose bit is set in \<open>movemask\<close>, in strictly ascending
  order, never on an index whose bit is clear, and it terminates for every mask.
  The run of the loop from any state \<open>s\<close> is the fold of \<open>f\<close> over the list of the set
  bits below 32 in ascending order; that list is strictly ascending, has no repetition,
  and its elements are exactly the indices of the set bits. The loop function is total:
  its recursion is justified by a measure (the word decreases at each turn).
\<close>

theorem foreach_active_visits_set_bits_ascending:
  "foreach_active mk f s = fold f (filter (bit (movemask mk)) [0..<32]) s
   \<and> sorted_wrt (<) (filter (bit (movemask mk)) [0..<32])
   \<and> distinct (filter (bit (movemask mk)) [0..<32])
   \<and> set (filter (bit (movemask mk)) [0..<32]) = {n. bit (movemask mk) n}"
proof -
  have "{n. bit (movemask mk) n} \<subseteq> {0..<32}"
    using bit_imp_le_length [of "movemask mk"] by auto
  then have "set (filter (bit (movemask mk)) [0..<32]) = {n. bit (movemask mk) n}"
    by auto
  moreover have "sorted_wrt (<) (filter (bit (movemask mk)) [0..<32])"
    by (rule sorted_wrt_filter) (simp del: upt.upt_Suc)
  ultimately show ?thesis
    by (simp add: foreach_active_def foreach_active_loop_fold Let_def del: upt.upt_Suc)
qed

text \<open>The specification's scenario for C5: the mask \<open>{true, false, true, false}\<close> has
  \<open>movemask\<close> 5, and \<open>foreach_active\<close> invokes \<open>f(0)\<close> then \<open>f(2)\<close>. The state is the list
  of the indices \<open>f\<close> was called with, in call order.\<close>

theorem foreach_active_scenario:
  "movemask (vec_bool_of_list [True, False, True, False]) = 5
   \<and> foreach_active (vec_bool_of_list [True, False, True, False]) (\<lambda>n tr. tr @ [n]) []
       = [0, 2]"
proof -
  have mm: "movemask (vec_bool_of_list [True, False, True, False]) = 5"
    by (simp add: vec_bool_of_list_def movemask_def)
  have "filter (bit (5 :: u32)) [0..<32] = [0, 2]"
    by (simp add: upt_rec bit_numeral_word_iff numeral_eq_Suc)
  with mm foreach_active_visits_set_bits_ascending
    [of "vec_bool_of_list [True, False, True, False]" "\<lambda>n tr. tr @ [n]" "[]"]
  show ?thesis by simp
qed

text \<open>
  Claim C6. The claim: the masked load, the free function \<open>load(pointers, mask)\<close>
  dispatching to the loader's \<open>load_masked\<close>, assigns \<open>dst[i] = *src[i]\<close> on the lanes
  whose mask bit is set and leaves the others untouched. The free function's body calls
  \<open>detail::loader<T,A>::load(result, pointers, mask)\<close>: the member named \<open>load\<close> takes
  two parameters, so the call resolves to nothing and the function yields no vector
  (the template cannot be instantiated), although its own \<open>noexcept\<close> clause names
  \<open>load_masked\<close> and the sibling \<open>store(pointers, t, mask)\<close> does call \<open>store_masked\<close>.
  On the specification's scenario (memory 100, 200, 300, 400 at four addresses, mask
  \<open>{true, true, false, false}\<close>, width 4) the free function has no result, while
  \<open>load_masked\<close> itself, called on a zero-initialised destination, gives lanes
  100, 200, 0, 0.
\<close>

theorem load_pointers_mask_unresolved:
  "load_pointers_mask 4
     ((\<lambda>a. 0)(1000 := 100, 1001 := 200, 1002 := 300, 1003 := 400) :: 32 word mem)
     [1000, 1001, 1002, 1003] (vec_bool_of_list [True, True, False, False]) = None
   \<and> base_loader_load_masked
       ((\<lambda>a. 0)(1000 := 100, 1001 := 200, 1002 := 300, 1003 := 400) :: 32 word mem)
       (vec_default 4) [1000, 1001, 1002, 1003] (vec_bool_of_list [True, True, False, False])
     = [100, 200, 0, 0]"
proof -
  have "filter (bit (3 :: u32)) [0..<32] = [0, 1]"
    by (simp add: upt_rec bit_numeral_word_iff numeral_eq_Suc)
  then show ?thesis
    by (simp add: load_pointers_mask_def loader_vector_pointers_mask_def
        base_loader_load_masked_def foreach_active_def vec_bool_of_list_def movemask_def
        vec_default_def foreach_active_loop_fold vec_put_def vec_get_def numeral_eq_Suc)
qed

text \<open>
  Claim C7. For every lane vector, every index \<open>n\<close> in \<open>[0, width)\<close> and every value
  \<open>x\<close>: after \<open>put(n, x)\<close>, \<open>get(n)\<close> returns \<open>x\<close> and \<open>get(j)\<close> for every other lane \<open>j\<close> in
  \<open>[0, width)\<close> returns what it returned before. This holds for the primary template
  (a vector \<open>xs\<close> of \<open>width\<close> lanes) and for the bit-packed \<open>vec<bool,A>\<close> (whose width is
  at most 32) alike.
\<close>

theorem vec_put_get:
  assumes "n < w" "w \<le> 32" "length xs = w"
  shows "vec_get (vec_put xs n x) n = x
       \<and> (\<forall>j<w. j \<noteq> n \<longrightarrow> vec_get (vec_put xs n x) j = vec_get xs j)
       \<and> vec_bool_get (vec_bool_put m n b) n = b
       \<and> (\<forall>j<w. j \<noteq> n \<longrightarrow> vec_bool_get (vec_bool_put m n b) j = vec_bool_get m j)"
proof -
  have n: "n < 32" using assms by simp
  have "vec_bool_get (vec_bool_put m n b) n = b"
    using n by (simp add: vec_bool_get_bit vec_bool_put_data bit_simps)
  moreover
  have "\<forall>j<w. j \<noteq> n \<longrightarrow> vec_bool_get (vec_bool_put m n b) j = vec_bool_get m j"
  proof (intro allI impI)
    fix j assume "j < w" "j \<noteq> n"
    then have "j < 32" using assms by simp
    with n \<open>j \<noteq> n\<close> show "vec_bool_get (vec_bool_put m n b) j = vec_bool_get m j"
      by (simp add: vec_bool_get_bit vec_bool_put_data bit_simps)
  qed
  ultimately show ?thesis using assms by (simp add: vec_get_def vec_put_def)
qed

theorem vec_put_get_witness:
  "vec_get (vec_put [10, 20, 30, 40 :: int] 2 99) 2 = 99
   \<and> vec_get (vec_put [10, 20, 30, 40 :: int] 2 99) 1 = vec_get [10, 20, 30, 40] 1
   \<and> vec_bool_get (vec_bool_put (Vec_bool 5) 2 False) 2 = False
   \<and> vec_bool_get (vec_bool_put (Vec_bool 5) 2 False) 0 = vec_bool_get (Vec_bool 5) 0"
proof -
  have h: "(2::nat) < 4" "(4::nat) \<le> 32" "length [10, 20, 30, 40 :: int] = 4" by simp_all
  from vec_put_get [OF h, of 99 "Vec_bool 5" False] show ?thesis by simp
qed

text \<open>
  The operators that \<open>RTS_BINOP_LHS\<close> and \<open>RTS_BINOP_RHS\<close> synthesise are elementwise:
  for vectors \<open>l\<close> and \<open>r\<close> of the same width and every lane \<open>n\<close> in \<open>[0, width)\<close>, lane \<open>n\<close>
  of \<open>l op r\<close> is \<open>l[n] op r[n]\<close>, the result is a fresh vector of \<open>width\<close> lanes, a mask
  vector when the scalar operator yields \<open>bool\<close>; the mixed forms give \<open>l[n] op s\<close> and
  \<open>t op r[n]\<close>. At width 4 on 32-bit integers, \<open>{1,2,3,4} + {10,20,30,40}\<close> is
  \<open>{11,22,33,44}\<close>.
\<close>

lemma binop_elementwise:
  assumes "n < w" "w \<le> 32" "length l = w" "length r = w"
  shows "vec_get (binop_vv w op l r) n = op (vec_get l n) (vec_get r n)
       \<and> vec_get (binop_vs w op l s) n = op (vec_get l n) s
       \<and> vec_get (binop_sv w op t r) n = op t (vec_get r n)
       \<and> length (binop_vv w op l r) = w
       \<and> vec_bool_get (binop_vv_bool w cmp l r) n = cmp (vec_get l n) (vec_get r n)
       \<and> vec_bool_get (binop_vs_bool w cmp l s) n = cmp (vec_get l n) s
       \<and> vec_bool_get (binop_sv_bool w cmp t r) n = cmp t (vec_get r n)
       \<and> binop_vv 4 (+) (vec_of_list 4 [1, 2, 3, 4 :: 32 word]) (vec_of_list 4 [10, 20, 30, 40])
           = vec_of_list 4 [11, 22, 33, 44]"
proof -
  have "binop_vv 4 (+) (vec_of_list 4 [1, 2, 3, 4 :: 32 word]) (vec_of_list 4 [10, 20, 30, 40])
           = vec_of_list 4 [11, 22, 33, 44]"
    by (simp add: binop_vv_def vec_of_list_def vec_default_def vec_put_def vec_get_def
        upt_rec numeral_eq_Suc)
  then show ?thesis
    unfolding binop_vv_def binop_vs_def binop_sv_def binop_vv_bool_def binop_vs_bool_def
      binop_sv_bool_def
    using assms(1,2)
    by (simp only: fold_put_lane fold_put_bool_lane simp_thms)
qed

lemma binop_elementwise_instance:
  "vec_get (binop_vv 4 (*) [1, 2, 3, 4 :: int] [5, 6, 7, 8 :: int]) 2 = 21
   \<and> vec_get (binop_vs 4 (*) [1, 2, 3, 4 :: int] (10 :: int)) 2 = 30
   \<and> vec_get (binop_sv 4 (-) (10 :: int) [5, 6, 7, 8 :: int]) 2 = 3
   \<and> vec_bool_get (binop_vv_bool 4 (<) [1, 2, 3, 4 :: int] [5, 1, 7, 2 :: int]) 2 = True
   \<and> vec_bool_get (binop_vs_bool 4 (<) [1, 2, 3, 4 :: int] (3 :: int)) 2 = False
   \<and> vec_bool_get (binop_sv_bool 4 (<) (6 :: int) [5, 6, 7, 8 :: int]) 2 = True"
proof -
  have h: "(2::nat) < 4" "(4::nat) \<le> 32" "length [1, 2, 3, 4 :: int] = 4"
    "length [5, 6, 7, 8 :: int] = 4" by simp_all
  have a: "vec_get [1, 2, 3, 4 :: int] 2 = 3" "vec_get [5, 6, 7, 8 :: int] 2 = 7"
    by (simp_all add: vec_get_def)
  from binop_elementwise [OF h, of "(*) :: int \<Rightarrow> int \<Rightarrow> int" 10 10 "(<)"]
  have 1: "vec_get (binop_vv 4 (*) [1, 2, 3, 4 :: int] [5, 6, 7, 8 :: int]) 2 = 21"
    and 2: "vec_get (binop_vs 4 (*) [1, 2, 3, 4 :: int] (10 :: int)) 2 = 30"
    by (simp_all add: a)
  from binop_elementwise [OF h, of "(-) :: int \<Rightarrow> int \<Rightarrow> int" 3 10 "(<)"]
  have 3: "vec_get (binop_sv 4 (-) (10 :: int) [5, 6, 7, 8 :: int]) 2 = 3"
    and 5: "vec_bool_get (binop_vs_bool 4 (<) [1, 2, 3, 4 :: int] (3 :: int)) 2 = False"
    by (simp_all add: a)
  have h': "(2::nat) < 4" "(4::nat) \<le> 32" "length [1, 2, 3, 4 :: int] = 4"
    "length [5, 1, 7, 2 :: int] = 4" by simp_all
  from binop_elementwise [OF h', of "(*) :: int \<Rightarrow> int \<Rightarrow> int" 3 6 "(<)"]
  have 4: "vec_bool_get (binop_vv_bool 4 (<) [1, 2, 3, 4 :: int] [5, 1, 7, 2 :: int]) 2 = True"
    by (simp add: vec_get_def)
  from binop_elementwise [OF h, of "(*) :: int \<Rightarrow> int \<Rightarrow> int" 3 6 "(<)"]
  have 6: "vec_bool_get (binop_sv_bool 4 (<) (6 :: int) [5, 6, 7, 8 :: int]) 2 = True"
    by (simp add: a)
  from 1 2 3 4 5 6 show ?thesis by simp
qed

text \<open>
  The member operators of the AVX \<open>int32_t\<close> vectors other than \<open>>>\<close> are elementwise in
  two's complement; \<open>>>\<close> agrees with the scalar operator on the lanes that are not
  negative.
\<close>

lemma vec_int32_avx_members_elementwise:
  assumes "n < length a" "length b = length a" "s < 32"
  shows "vec_get (vec_int32_avx_add a b) n = vec_get a n + vec_get b n"
    and "vec_get (vec_int32_avx_sub a b) n = vec_get a n - vec_get b n"
    and "vec_get (vec_int32_avx_mul a b) n = vec_get a n * vec_get b n"
    and "vec_get (vec_int32_avx_and a b) n = vec_get a n AND vec_get b n"
    and "vec_get (vec_int32_avx_or a b) n = vec_get a n OR vec_get b n"
    and "vec_get (vec_int32_avx_xor a b) n = vec_get a n XOR vec_get b n"
    and "vec_get (vec_int32_avx_shl a s) n = int32_shl (vec_get a n) s"
  using assms
  by (simp_all add: vec_int32_avx_add_def vec_int32_avx_sub_def vec_int32_avx_mul_def
      vec_int32_avx_and_def vec_int32_avx_or_def vec_int32_avx_xor_def vec_int32_avx_shl_def
      mm_add_epi32_def mm_sub_epi32_def mm_mullo_epi32_def mm_and_si_def mm_or_si_def
      mm_xor_si_def mm_slli_epi32_def int32_shl_def vec_get_def)

lemma vec_int32_avx_shr_nonneg:
  assumes "n < length a" "s < 32" "\<not> bit (vec_get a n) 31"
  shows "vec_get (vec_int32_avx_shr a s) n = int32_shr (vec_get a n) s"
proof -
  have "drop_bit s (vec_get a n) = signed_drop_bit s (vec_get a n)"
    using assms(2,3)
    by (intro bit_word_eqI)
      (auto simp add: bit_simps bit_signed_drop_bit_iff dest: bit_imp_le_length)
  with assms(1,2) show ?thesis
    by (simp add: vec_int32_avx_shr_def mm_srli_epi32_def int32_shr_def vec_get_def)
qed

text \<open>
  Claim C8. The claim: for every supported binary elementwise operator, all lane vectors
  \<open>lhs\<close>, \<open>rhs\<close> of the same width and every lane, \<open>(lhs op rhs)[i] == lhs[i] op rhs[i]\<close>,
  and the mixed forms satisfy \<open>(lhs op s)[i] == lhs[i] op s\<close>. On a build with AVX the
  vectors of \<open>std::int32_t\<close> take their member \<open>operator >>\<close>, which is
  \<open>RTS_DEF_SHIFT(>>, _mm_srli_epi32)\<close>, the logical shift, while \<open>>>\<close> on an \<open>int32_t\<close>
  lane keeps the sign. For the vector \<open>{-8, 0, 0, 0}\<close> and the count 1, lane 0 of
  \<open>lhs >> 1\<close> is \<open>0x7ffffffc\<close> where \<open>lhs[0] >> 1\<close> is \<open>-4\<close>; the loop that
  \<open>RTS_BINOP_LHS(>>)\<close> synthesises, which the same expression takes when the vector is
  of the primary template, gives \<open>-4\<close>.
\<close>

theorem vec_int32_avx_shift_right_negative_lane:
  "vec_get (vec_int32_avx_shr [- 8, 0, 0, 0] 1) 0 = 0x7FFFFFFC
   \<and> int32_shr (vec_get [- 8, 0, 0, 0] 0) 1 = - 4
   \<and> sint (int32_shr (vec_get [- 8, 0, 0, 0] 0) 1) = - 4
   \<and> vec_get (vec_int32_avx_shr [- 8, 0, 0, 0] 1) 0 \<noteq> int32_shr (vec_get [- 8, 0, 0, 0] 0) 1
   \<and> vec_get (binop_vs 4 int32_shr [- 8, 0, 0, 0] 1) 0 = - 4"
proof -
  have a: "vec_get (vec_int32_avx_shr [- 8, 0, 0, 0] 1) 0 = 0x7FFFFFFC"
    by (simp add: vec_int32_avx_shr_def mm_srli_epi32_def vec_get_def drop_bit_eq_div)
  have b: "int32_shr (vec_get [- 8, 0, 0, 0] 0) 1 = - 4"
    by (simp add: int32_shr_def vec_get_def)
  have c: "vec_get (binop_vs 4 int32_shr [- 8, 0, 0, 0] 1) 0 = - 4"
    by (simp add: binop_vs_def int32_shr_def vec_get_def vec_put_def vec_default_def
        upt_rec numeral_eq_Suc)
  have d: "(0x7FFFFFFC :: u32) \<noteq> - 4" by simp
  from a b c d show ?thesis by simp
qed

text \<open>
  Claim C9, as stated: every mask vector built by the public operations, the
  construction from an initializer list among them, has no bit above lane \<open>width - 1\<close>
  in \<open>movemask\<close>. The initializer-list constructor sets one bit per \<open>true\<close> element of
  the list without comparing the list's length with the width: at width 4, the list of
  five \<open>true\<close> values gives \<open>movemask\<close> \<open>0x1f\<close>, whose bit 4 is outside \<open>width_mask\<close>
  \<open>0xf\<close>.
\<close>

theorem mask_initializer_list_too_long:
  "movemask (mask_build_value 4 (Build_of_list [True, True, True, True, True])) = 31
   \<and> width_mask 4 = 15
   \<and> movemask (mask_build_value 4 (Build_of_list [True, True, True, True, True]))
       AND NOT (width_mask 4) \<noteq> 0"
  by (simp add: vec_bool_of_list_def movemask_def width_mask_def)

text \<open>
  Claim C9, amended: every mask vector built by the public operations (default
  construction, construction from \<open>bool\<close>, \<open>true_type\<close>, \<open>false_type\<close>, from another
  vector, from an initializer list of at most \<open>width\<close> elements; \<open>put\<close> at a lane in
  \<open>[0, width)\<close>; the operators \<open>~\<close>, \<open>!\<close>, \<open>&\<close>, \<open>|\<close>, \<open>^\<close>, \<open>&&\<close>, \<open>||\<close> and their compound
  forms) satisfies \<open>movemask() & ~width_mask == 0\<close>. The width is at most 32, as the
  static assertion of \<open>vec<bool,A>\<close> demands.
\<close>

theorem mask_build_invariant:
  assumes "mask_build_in_range w e" "w \<le> 32"
  shows "movemask (mask_build_value w e) AND NOT (width_mask w) = 0"
proof -
  from assms have "data (mask_build_value w e) AND NOT (width_mask w) = 0"
  proof (induction e)
    case Build_default
    then show ?case by (simp add: vec_bool_default_def)
  next
    case (Build_of_bool b)
    then show ?case by (simp add: vec_bool_of_bool_def)
  next
    case Build_false_type
    then show ?case by (simp add: vec_bool_false_type_def)
  next
    case Build_true_type
    then show ?case by (simp add: vec_bool_true_type_def)
  next
    case (Build_of_list bs)
    have "init_list_loop bs (2 ^ 0) 0 AND NOT (width_mask w) = 0"
      using Build_of_list by (intro init_list_loop_inside) simp_all
    then show ?case by (simp add: vec_bool_of_list_def)
  next
    case (Build_of_vec that)
    have "fold (\<lambda>n d. if that n then ucast (ucast d OR bit1ul n) else d) [0..<w] 0
            AND NOT (width_mask w) = 0"
      using Build_of_vec by (intro of_vec_loop_inside) auto
    then show ?case by (simp add: vec_bool_of_vec_def)
  next
    case (Build_put e n b)
    then have "n < 32" by simp
    with Build_put show ?case
      by (auto simp add: vec_bool_put_data inside_mask_iff bit_simps)
  next
    case (Build_not e)
    then show ?case
      by (auto simp add: vec_bool_not_def inside_mask_iff bit_simps bit_width_mask)
  next
    case (Build_and e1 e2)
    then show ?case by (auto simp add: vec_bool_and_def inside_mask_iff bit_simps)
  next
    case (Build_or e1 e2)
    then show ?case by (auto simp add: vec_bool_or_def inside_mask_iff bit_simps)
  next
    case (Build_xor e1 e2)
    then show ?case by (auto simp add: vec_bool_xor_def inside_mask_iff bit_simps)
  qed
  then show ?thesis by (simp add: movemask_def)
qed

theorem mask_build_invariant_witness:
  "mask_build_in_range 4
     (Build_not (Build_put (Build_of_list [True, False, True, False]) 3 True))
   \<and> (4::nat) \<le> 32
   \<and> movemask (mask_build_value 4
        (Build_not (Build_put (Build_of_list [True, False, True, False]) 3 True))) = 2
   \<and> movemask (mask_build_value 4
        (Build_not (Build_put (Build_of_list [True, False, True, False]) 3 True)))
      AND NOT (width_mask 4) = 0"
proof -
  have r: "mask_build_in_range 4
     (Build_not (Build_put (Build_of_list [True, False, True, False]) 3 True))"
    and w: "(4::nat) \<le> 32"
    by simp_all
  have "data (vec_bool_put (vec_bool_of_list [True, False, True, False]) 3 True) = 13"
    by (simp add: vec_bool_put_data vec_bool_of_list_def)
  then have "movemask (mask_build_value 4
        (Build_not (Build_put (Build_of_list [True, False, True, False]) 3 True))) = 2"
    by (simp add: movemask_def vec_bool_not_def width_mask_def)
  with r w mask_build_invariant [OF r w] show ?thesis by simp
qed

text \<open>
  Claim C10. Constructing a tuple vector from a scalar tuple gives a vector whose every
  component vector is default-constructed, zero in every lane, whatever the values of
  the tuple: the argument is ignored (two tuples over the same pack give the same
  vector), unlike the pair vector's constructor from a scalar pair, which broadcasts
  its argument to every lane.
\<close>

theorem vec_tuple_ctor_ignores_argument:
  "vec_tuple_ctor w b = replicate (length b) (vec_default w)
   \<and> (\<forall>n<w. vec_tuple_get (vec_tuple_ctor w b) n = replicate (length b) 0)
   \<and> (length b' = length b \<longrightarrow> vec_tuple_ctor w b' = vec_tuple_ctor w b)
   \<and> (\<forall>n<w. vec_pair_get (vec_pair_ctor w p) n = p)"
  by (simp add: vec_tuple_ctor_def vec_tuple_get_def vec_pair_ctor_def vec_pair_get_def
      vec_broadcast_def vec_default_def vec_get_def map_replicate_const)

theorem vec_tuple_ctor_ignores_argument_witness:
  "vec_tuple_ctor 4 [7, 8 :: int] = [[0, 0, 0, 0], [0, 0, 0, 0]]
   \<and> vec_tuple_get (vec_tuple_ctor 4 [7, 8 :: int]) 2 = [0, 0]
   \<and> vec_tuple_ctor 4 [1, 2 :: int] = vec_tuple_ctor 4 [7, 8 :: int]
   \<and> vec_pair_get (vec_pair_ctor 4 (7 :: int, 8 :: int)) 2 = (7, 8)"
proof -
  note t = vec_tuple_ctor_ignores_argument
    [of 4 "[7, 8 :: int]" "[1, 2 :: int]" "(7 :: int, 8 :: int)"]
  from t [THEN conjunct1]
  have a: "vec_tuple_ctor 4 [7, 8 :: int] = [[0, 0, 0, 0], [0, 0, 0, 0]]"
    by (simp add: vec_default_def numeral_eq_Suc)
  from t [THEN conjunct2, THEN conjunct1, rule_format, of 2]
  have b: "vec_tuple_get (vec_tuple_ctor 4 [7, 8 :: int]) 2 = [0, 0]"
    by (simp add: numeral_eq_Suc)
  from t [THEN conjunct2, THEN conjunct2, THEN conjunct1]
  have c: "vec_tuple_ctor 4 [1, 2 :: int] = vec_tuple_ctor 4 [7, 8 :: int]"
    by simp
  from t [THEN conjunct2, THEN conjunct2, THEN conjunct2, rule_format, of 2]
  have d: "vec_pair_get (vec_pair_ctor 4 (7 :: int, 8 :: int)) 2 = (7, 8)"
    by simp
  from a b c d show ?thesis by simp
qed

end
